theory Spec2Isabelle
  imports Main "HOL-Library.Log_Nat"
begin

section \<open>Python floats\<close>

text \<open>
  The checkout arithmetic of \<^verbatim>\<open>main.py\<close> is done on Python floats, that is on IEEE 754
  binary64 values. A float is modelled by its exact numeric value: \<open>Fin r\<close> is the double
  whose value is the rational \<open>r\<close>, the other constructors are the two infinities and
  not-a-number. The two signed zeros are identified (Python's \<^verbatim>\<open>==\<close> identifies them
  too). Every operation computes the exact rational result and rounds it to the nearest
  double, ties to even, with \<open>fl\<close>: this is what the hardware does.
\<close>

datatype pyfloat = Fin rat | PInf | NInf | NaN

definition round_half_even :: "rat \<Rightarrow> int" where
  "round_half_even y =
     (let f = \<lfloor>y\<rfloor>; d = y - of_int f
      in if d < 1 / 2 then f
         else if 1 / 2 < d then f + 1
         else if even f then f else f + 1)"

definition pow2 :: "int \<Rightarrow> rat" where
  "pow2 i = (if 0 \<le> i then 2 ^ nat i else 1 / 2 ^ nat (- i))"

text \<open>\<open>ilog2 x\<close> is the exponent of the leading bit of \<open>x \<noteq> 0\<close>: the floor of its binary logarithm.\<close>

definition ilog2 :: "rat \<Rightarrow> int" where
  "ilog2 x =
     (let (p, q) = quotient_of \<bar>x\<bar>; k = bitlen p - bitlen q
      in if pow2 k \<le> \<bar>x\<bar> then k else k - 1)"

text \<open>
  Rounding to binary64: 53 significant bits, the exponent of the leading bit at least
  \<open>-1022\<close> (below that the spacing stays \<open>2 ^ -1074\<close>: subnormal numbers), and an
  infinity when the rounded magnitude reaches \<open>2 ^ 1024\<close>.
\<close>

definition fl :: "rat \<Rightarrow> pyfloat" where
  "fl x =
     (if x = 0 then Fin 0
      else let e = max (ilog2 x) (- 1022);
               m = round_half_even (x / pow2 (e - 52))
           in if 1023 < e \<or> (e = 1023 \<and> 2 ^ 53 \<le> \<bar>m\<bar>)
              then (if 0 < x then PInf else NInf)
              else Fin (of_int m * pow2 (e - 52)))"

text \<open>A float literal of the source (\<^verbatim>\<open>6.99\<close>, \<^verbatim>\<open>0.08\<close>) denotes the double nearest to the decimal.\<close>

definition float_literal :: "rat \<Rightarrow> pyfloat" where
  "float_literal x = fl x"

text \<open>\<^verbatim>\<open>a + b\<close> on floats.\<close>

fun fadd :: "pyfloat \<Rightarrow> pyfloat \<Rightarrow> pyfloat" where
  "fadd (Fin a) (Fin b) = fl (a + b)"
| "fadd NaN _ = NaN"
| "fadd _ NaN = NaN"
| "fadd PInf NInf = NaN"
| "fadd NInf PInf = NaN"
| "fadd PInf _ = PInf"
| "fadd _ PInf = PInf"
| "fadd NInf _ = NInf"
| "fadd _ NInf = NInf"

text \<open>\<^verbatim>\<open>a * b\<close> on floats: an infinity times zero is not a number.\<close>

definition inf_times :: "bool \<Rightarrow> rat \<Rightarrow> pyfloat" where
  "inf_times positive r =
     (if r = 0 then NaN else if (0 < r) = positive then PInf else NInf)"

fun fmul :: "pyfloat \<Rightarrow> pyfloat \<Rightarrow> pyfloat" where
  "fmul (Fin a) (Fin b) = fl (a * b)"
| "fmul NaN _ = NaN"
| "fmul _ NaN = NaN"
| "fmul PInf (Fin b) = inf_times True b"
| "fmul NInf (Fin b) = inf_times False b"
| "fmul (Fin a) PInf = inf_times True a"
| "fmul (Fin a) NInf = inf_times False a"
| "fmul PInf PInf = PInf"
| "fmul NInf NInf = PInf"
| "fmul PInf NInf = NInf"
| "fmul NInf PInf = NInf"

text \<open>\<^verbatim>\<open>x >= n\<close> for a float and an int: the comparison is exact, and false on not-a-number.\<close>

fun fge :: "pyfloat \<Rightarrow> int \<Rightarrow> bool" where
  "fge (Fin a) n = (of_int n \<le> a)"
| "fge PInf n = True"
| "fge NInf n = False"
| "fge NaN n = False"

text \<open>
  \<^verbatim>\<open>round(x, 2)\<close>: CPython rounds the exact value of the double to two decimals, ties to
  even, and returns the double nearest to that decimal; infinities and not-a-number round
  to themselves.
\<close>

fun py_round2 :: "pyfloat \<Rightarrow> pyfloat" where
  "py_round2 (Fin r) = fl (of_int (round_half_even (r * 100)) / 100)"
| "py_round2 x = x"

section \<open>Exceptions\<close>

datatype exn =
    HTTPException int string
  | InvalidId
  | KeyError string
  | PyMongoError
  | OverflowError

text \<open>
  An int operand of a float operation is converted to a float first; the conversion rounds
  to nearest and raises \<^verbatim>\<open>OverflowError\<close> when the int is too large for a double.
\<close>

definition int_to_float :: "int \<Rightarrow> pyfloat" where
  "int_to_float n = fl (of_int n)"

definition py_float_of_int :: "int \<Rightarrow> exn + pyfloat" where
  "py_float_of_int n =
     (case int_to_float n of Fin r \<Rightarrow> Inr (Fin r) | _ \<Rightarrow> Inl OverflowError)"

text \<open>\<^verbatim>\<open>price * item.quantity\<close>: a float times an int.\<close>

definition fmul_int :: "pyfloat \<Rightarrow> int \<Rightarrow> exn + pyfloat" where
  "fmul_int price q =
     (case py_float_of_int q of Inl e \<Rightarrow> Inl e | Inr f \<Rightarrow> Inr (fmul price f))"

section \<open>Requests, documents and the store\<close>

record CartItem =
  product_id :: string
  quantity :: int

record CheckoutRequest =
  items :: "CartItem list"
  customer_name :: string
  customer_email :: string
  address_line1 :: string
  address_city :: string
  address_state :: string
  address_postal_code :: string
  address_country :: string

text \<open>
  A stored product is a document, not a validated \<^verbatim>\<open>Product\<close>: the keys that checkout
  reads with \<^verbatim>\<open>doc["price"]\<close> and \<^verbatim>\<open>doc["title"]\<close> may be missing (\<open>None\<close>), and
  \<open>doc_price\<close> holds the value of \<^verbatim>\<open>float(doc["price"])\<close> when that conversion succeeds.
\<close>

record image_doc =
  img_url :: "string option"
  img_alt :: "string option"

record product_doc =
  doc_title :: "string option"
  doc_description :: string
  doc_price :: "pyfloat option"
  doc_category :: "string option"
  doc_tags :: "string list"
  doc_images :: "image_doc list"
  doc_in_stock :: bool
  doc_stock_qty :: int

text \<open>The dictionaries appended to \<^verbatim>\<open>items_out\<close>, the order document and the response.\<close>

record item_out =
  out_product_id :: string
  out_title :: string
  out_price :: pyfloat
  out_quantity :: int
  out_image :: "string option"
  out_line_total :: pyfloat

record customer_doc =
  cust_name :: string
  cust_email :: string
  cust_address_line1 :: string
  cust_city :: string
  cust_state :: string
  cust_postal_code :: string
  cust_country :: string

record order_doc =
  ord_items :: "item_out list"
  ord_subtotal :: pyfloat
  ord_shipping :: pyfloat
  ord_tax :: pyfloat
  ord_total :: pyfloat
  ord_customer :: customer_doc
  ord_status :: string

record response =
  resp_items :: "item_out list"
  resp_subtotal :: pyfloat
  resp_shipping :: pyfloat
  resp_tax :: pyfloat
  resp_total :: pyfloat
  resp_status :: string
  resp_message :: string

datatype document = ProductDoc product_doc | OrderDoc order_doc

text \<open>
  The store: named collections of documents keyed by their \<^verbatim>\<open>_id\<close>, whether the server
  answers, and the calls made so far (a record of which operations were attempted).
  The global \<^verbatim>\<open>db\<close> of the source is a \<open>database option\<close>, \<open>None\<close> when no database is
  configured.
\<close>

type_synonym objectid = nat

datatype store_op = FindOne string objectid | InsertOne string

record database =
  colls :: "string \<Rightarrow> (objectid \<times> document) list"
  reachable :: bool
  calls :: "store_op list"

text \<open>
  \<^verbatim>\<open>bson.ObjectId(s)\<close> accepts a string of 24 hexadecimal digits and raises
  \<^verbatim>\<open>InvalidId\<close> on any other string.
\<close>

definition hex_digit :: "char \<Rightarrow> nat option" where
  "hex_digit c =
     (let n = (of_char c :: nat)
      in if 48 \<le> n \<and> n \<le> 57 then Some (n - 48)
         else if 97 \<le> n \<and> n \<le> 102 then Some (n - 87)
         else if 65 \<le> n \<and> n \<le> 70 then Some (n - 55)
         else None)"

fun parse_hex :: "string \<Rightarrow> nat \<Rightarrow> nat option" where
  "parse_hex [] acc = Some acc"
| "parse_hex (c # cs) acc =
     (case hex_digit c of None \<Rightarrow> None | Some v \<Rightarrow> parse_hex cs (16 * acc + v))"

definition ObjectId :: "string \<Rightarrow> exn + objectid" where
  "ObjectId s =
     (if length s = 24
      then (case parse_hex s 0 of None \<Rightarrow> Inl InvalidId | Some n \<Rightarrow> Inr n)
      else Inl InvalidId)"

text \<open>\<^verbatim>\<open>db[name].find_one({"_id": oid})\<close>: a read; it raises when the server does not answer.\<close>

definition find_one :: "string \<Rightarrow> objectid \<Rightarrow> database \<Rightarrow> (exn + document option) \<times> database" where
  "find_one name oid d =
     (let d' = d\<lparr>calls := calls d @ [FindOne name oid]\<rparr>
      in if reachable d then (Inr (map_of (colls d name) oid), d')
         else (Inl PyMongoError, d'))"

definition fresh_id :: "(objectid \<times> document) list \<Rightarrow> objectid" where
  "fresh_id docs = Suc (fold max (map fst docs) 0)"

text \<open>
  Modelled from the spec: \<^verbatim>\<open>create_document\<close> of \<^verbatim>\<open>database.py\<close>, which is not among the
  sources. The specification gives its contract as
  \<^verbatim>\<open>insert(collection_name, document) -> generated_id\<close>: the document is added to the
  named collection under a new identifier, which is returned.
\<close>

definition create_document :: "string \<Rightarrow> document \<Rightarrow> database \<Rightarrow> (exn + objectid) \<times> database" where
  "create_document name doc d =
     (let d' = d\<lparr>calls := calls d @ [InsertOne name]\<rparr>
      in if reachable d
         then (Inr (fresh_id (colls d name)),
               d'\<lparr>colls := (colls d)(name := colls d name @ [(fresh_id (colls d name), doc)])\<rparr>)
         else (Inl PyMongoError, d'))"

section \<open>Checkout\<close>

text \<open>\<^verbatim>\<open>(doc.get("images") or [{}])[0].get("url")\<close>\<close>

definition first_image_url :: "image_doc list \<Rightarrow> string option" where
  "first_image_url imgs = (case imgs of [] \<Rightarrow> None | i # _ \<Rightarrow> img_url i)"

text \<open>
  The body of the \<^verbatim>\<open>try\<close> block (lines 176 to 181): the price, title and image of the
  product an item names, or the exception raised on the way. A document of another shape
  found in the collection has no \<^verbatim>\<open>"price"\<close> key.
\<close>

definition read_snapshot :: "document \<Rightarrow> exn + (pyfloat \<times> string \<times> string option)" where
  "read_snapshot doc =
     (case doc of
        OrderDoc _ \<Rightarrow> Inl (KeyError ''price'')
      | ProductDoc p \<Rightarrow>
          (case doc_price p of
             None \<Rightarrow> Inl (KeyError ''price'')
           | Some price \<Rightarrow>
               (case doc_title p of
                  None \<Rightarrow> Inl (KeyError ''title'')
                | Some title \<Rightarrow> Inr (price, title, first_image_url (doc_images p)))))"

definition try_body :: "database \<Rightarrow> CartItem \<Rightarrow> (exn + (pyfloat \<times> string \<times> string option)) \<times> database" where
  "try_body d item =
     (case ObjectId (product_id item) of
        Inl e \<Rightarrow> (Inl e, d)
      | Inr oid \<Rightarrow>
          (case find_one ''product'' oid d of
             (Inl e, d') \<Rightarrow> (Inl e, d')
           | (Inr None, d') \<Rightarrow>
               (Inl (HTTPException 404 (''Product '' @ product_id item @ '' not found'')), d')
           | (Inr (Some doc), d') \<Rightarrow> (read_snapshot doc, d')))"

text \<open>
  Lines 169 to 183: the mock when no database is configured; otherwise the \<^verbatim>\<open>try\<close> block
  under \<^verbatim>\<open>except Exception\<close>, which replaces whatever was raised.
\<close>

definition resolve :: "database option \<Rightarrow> CartItem \<Rightarrow> (exn + (pyfloat \<times> string \<times> string option)) \<times> database option" where
  "resolve db item =
     (case db of
        None \<Rightarrow>
          (Inr (Fin 49, ''Gift Item'',
                Some ''https://images.unsplash.com/photo-1523275335684-37898b6baf30''), None)
      | Some d \<Rightarrow>
          (case try_body d item of
             (Inl e, d') \<Rightarrow> (Inl (HTTPException 400 ''Invalid product id''), Some d')
           | (Inr snap, d') \<Rightarrow> (Inr snap, Some d')))"

text \<open>The \<^verbatim>\<open>for\<close> loop of lines 168 to 194, on the pair of \<^verbatim>\<open>items_out\<close> and \<^verbatim>\<open>subtotal\<close>.\<close>

fun process_items :: "database option \<Rightarrow> CartItem list \<Rightarrow> item_out list \<times> pyfloat \<Rightarrow> (exn + item_out list \<times> pyfloat) \<times> database option" where
  "process_items db [] acc = (Inr acc, db)"
| "process_items db (item # rest) (items_out, subtotal) =
     (case resolve db item of
        (Inl e, db') \<Rightarrow> (Inl e, db')
      | (Inr (price, title, img), db') \<Rightarrow>
          (case fmul_int price (quantity item) of
             Inl e \<Rightarrow> (Inl e, db')
           | Inr line_total \<Rightarrow>
               process_items db' rest
                 (items_out @
                    [\<lparr>out_product_id = product_id item, out_title = title, out_price = price,
                      out_quantity = quantity item, out_image = img,
                      out_line_total = py_round2 line_total\<rparr>],
                  fadd subtotal line_total)))"

text \<open>
  Lines 160 to 229. The result is the response or the exception raised, together with the
  store afterwards. The int \<^verbatim>\<open>0\<close> that \<^verbatim>\<open>shipping\<close> may hold is modelled by the float of
  the same value: it only enters a float addition and \<^verbatim>\<open>round\<close>, which give the same
  numbers for both.
\<close>

definition checkout :: "database option \<Rightarrow> CheckoutRequest \<Rightarrow> (exn + response) \<times> database option" where
  "checkout db payload =
     (if items payload = [] then (Inl (HTTPException 400 ''Cart is empty''), db)
      else
        (case process_items db (items payload) ([], Fin 0) of
           (Inl e, db') \<Rightarrow> (Inl e, db')
         | (Inr (items_out, subtotal), db') \<Rightarrow>
             (let shipping = (if fge subtotal 75 then Fin 0 else float_literal (699 / 100));
                  tax = py_round2 (fmul subtotal (float_literal (8 / 100)));
                  total = py_round2 (fadd (fadd subtotal shipping) tax);
                  result =
                    \<lparr>resp_items = items_out, resp_subtotal = py_round2 subtotal,
                     resp_shipping = py_round2 shipping, resp_tax = tax, resp_total = total,
                     resp_status = ''processing'',
                     resp_message = ''Order placed successfully''\<rparr>
              in (case db' of
                    None \<Rightarrow> (Inr result, None)
                  | Some d \<Rightarrow>
                      (case create_document ''order''
                              (OrderDoc
                                 \<lparr>ord_items = items_out, ord_subtotal = py_round2 subtotal,
                                  ord_shipping = py_round2 shipping, ord_tax = tax,
                                  ord_total = total,
                                  ord_customer =
                                    \<lparr>cust_name = customer_name payload,
                                     cust_email = customer_email payload,
                                     cust_address_line1 = address_line1 payload,
                                     cust_city = address_city payload,
                                     cust_state = address_state payload,
                                     cust_postal_code = address_postal_code payload,
                                     cust_country = address_country payload\<rparr>,
                                  ord_status = ''processing''\<rparr>) d of
                         (Inl e, d') \<Rightarrow> (Inl e, Some d')
                       | (Inr _, d') \<Rightarrow> (Inr result, Some d'))))))"

section \<open>The notions the properties are stated on\<close>

text \<open>
  The unrounded line total \<^verbatim>\<open>price * item.quantity\<close> of an emitted line, and the value
  of the variable \<^verbatim>\<open>subtotal\<close> after the loop: the float sum, in cart order, of the
  unrounded line totals, started at \<^verbatim>\<open>0.0\<close>.
\<close>

definition raw_line :: "item_out \<Rightarrow> pyfloat" where
  "raw_line io = fmul (out_price io) (int_to_float (out_quantity io))"

definition raw_subtotal :: "item_out list \<Rightarrow> pyfloat" where
  "raw_subtotal outs = foldl fadd (Fin 0) (map raw_line outs)"

text \<open>Line 196: \<^verbatim>\<open>shipping = 0 if subtotal >= 75 else 6.99\<close>.\<close>

definition shipping_of :: "pyfloat \<Rightarrow> pyfloat" where
  "shipping_of s = (if fge s 75 then Fin 0 else float_literal (699 / 100))"

text \<open>
  Two of the ways the resolution of a product can fail: the identifier is not a well-formed
  \<^verbatim>\<open>ObjectId\<close>, or it is well-formed and the product collection holds no document
  under it.
\<close>

definition malformed :: "string \<Rightarrow> bool" where
  "malformed pid = isl (ObjectId pid)"

definition nonexistent :: "database \<Rightarrow> string \<Rightarrow> bool" where
  "nonexistent d pid =
     (case ObjectId pid of
        Inl _ \<Rightarrow> False
      | Inr oid \<Rightarrow> map_of (colls d ''product'') oid = None)"

text \<open>The line emitted for a cart item when no database is configured (lines 170 to 173).\<close>

definition fallback_line :: "CartItem \<Rightarrow> item_out" where
  "fallback_line item =
     \<lparr>out_product_id = product_id item, out_title = ''Gift Item'', out_price = Fin 49,
      out_quantity = quantity item,
      out_image = Some ''https://images.unsplash.com/photo-1523275335684-37898b6baf30'',
      out_line_total = py_round2 (fmul (Fin 49) (int_to_float (quantity item)))\<rparr>"

text \<open>The order documents held by the store.\<close>

definition persisted_orders :: "database option \<Rightarrow> order_doc list" where
  "persisted_orders db =
     (case db of
        None \<Rightarrow> []
      | Some d \<Rightarrow>
          concat (map (\<lambda>(i, doc). case doc of OrderDoc od \<Rightarrow> [od] | ProductDoc _ \<Rightarrow> [])
                      (colls d ''order'')))"

section \<open>Sample data\<close>

text \<open>
  A store holding one product, of a given price, under the identifier
  \<^verbatim>\<open>000000000000000000000001\<close>, and requests for carts of lines on it.
\<close>

definition sample_product :: "pyfloat \<Rightarrow> product_doc" where
  "sample_product p =
     \<lparr>doc_title = Some ''Card'', doc_description = [], doc_price = Some p, doc_category = None,
      doc_tags = [], doc_images = [], doc_in_stock = True, doc_stock_qty = 50\<rparr>"

definition sample_db :: "pyfloat \<Rightarrow> database" where
  "sample_db p =
     \<lparr>colls = (\<lambda>name. if name = ''product'' then [(1, ProductDoc (sample_product p))] else []),
      reachable = True, calls = []\<rparr>"

definition sample_request :: "CartItem list \<Rightarrow> CheckoutRequest" where
  "sample_request its =
     \<lparr>items = its, customer_name = ''Ann'', customer_email = ''ann@example.org'',
      address_line1 = ''1 Main St'', address_city = ''Springfield'', address_state = ''IL'',
      address_postal_code = ''62701'', address_country = ''US''\<rparr>"

definition sample_id :: string where
  "sample_id = ''000000000000000000000001''"

definition line :: "int \<Rightarrow> CartItem" where
  "line q = \<lparr>product_id = sample_id, quantity = q\<rparr>"

definition response_five_eighths :: response where
  "response_five_eighths =
     \<lparr>resp_items =
        [\<lparr>out_product_id = sample_id, out_title = ''Card'', out_price = Fin (5 / 8),
          out_quantity = 1, out_image = None, out_line_total = float_literal (62 / 100)\<rparr>],
      resp_subtotal = float_literal (62 / 100), resp_shipping = float_literal (699 / 100),
      resp_tax = float_literal (5 / 100), resp_total = float_literal (767 / 100),
      resp_status = ''processing'', resp_message = ''Order placed successfully''\<rparr>"

definition response_two_eighths :: response where
  "response_two_eighths =
     \<lparr>resp_items =
        [\<lparr>out_product_id = sample_id, out_title = ''Card'', out_price = Fin (1 / 8),
          out_quantity = 1, out_image = None, out_line_total = float_literal (12 / 100)\<rparr>,
         \<lparr>out_product_id = sample_id, out_title = ''Card'', out_price = Fin (1 / 8),
          out_quantity = 1, out_image = None, out_line_total = float_literal (12 / 100)\<rparr>],
      resp_subtotal = Fin (1 / 4), resp_shipping = float_literal (699 / 100),
      resp_tax = float_literal (2 / 100), resp_total = float_literal (726 / 100),
      resp_status = ''processing'', resp_message = ''Order placed successfully''\<rparr>"

definition response_eighty_nine :: response where
  "response_eighty_nine =
     \<lparr>resp_items =
        [\<lparr>out_product_id = sample_id, out_title = ''Card'', out_price = Fin 89,
          out_quantity = 1, out_image = None, out_line_total = Fin 89\<rparr>],
      resp_subtotal = Fin 89, resp_shipping = Fin 0,
      resp_tax = float_literal (712 / 100), resp_total = float_literal (9612 / 100),
      resp_status = ''processing'', resp_message = ''Order placed successfully''\<rparr>"

definition unreachable_db :: database where
  "unreachable_db = (sample_db (Fin 89))\<lparr>reachable := False\<rparr>"

definition missing_id :: string where
  "missing_id = ''000000000000000000000002''"

section \<open>Properties of the float operations and of the loop\<close>

lemma fmul_int_Inr: "fmul_int price q = Inr lt \<Longrightarrow> lt = fmul price (int_to_float q)"
  by (auto simp: fmul_int_def py_float_of_int_def split: sum.splits pyfloat.splits)

lemma fmul_commute: "fmul a b = fmul b a"
  by (cases a; cases b) (simp_all add: mult.commute)

lemma py_round2_zero: "py_round2 (Fin 0) = Fin 0"
  by (simp add: fl_def round_half_even_def)

lemma py_round2_699: "py_round2 (float_literal (699 / 100)) = float_literal (699 / 100)"
  by code_simp

lemma literal_699_nonzero: "float_literal (699 / 100) \<noteq> Fin 0"
  by code_simp

lemma py_round2_shipping: "py_round2 (shipping_of s) = shipping_of s"
  by (simp add: shipping_of_def py_round2_699 fl_def round_half_even_def)

lemma process_items_acc:
  "process_items db its (out, s) = (Inr (out', s'), db') \<Longrightarrow>
   \<exists>new. out' = out @ new \<and> s' = foldl fadd s (map raw_line new)
     \<and> list_all (\<lambda>io. out_line_total io = py_round2 (raw_line io)) new
     \<and> map out_product_id new = map product_id its
     \<and> map out_quantity new = map quantity its"
proof (induction its arbitrary: db out s)
  case Nil
  then show ?case by simp
next
  case (Cons item rest)
  from Cons.prems obtain price title img db1 lt where
    r: "resolve db item = (Inr (price, title, img), db1)" and
    m: "fmul_int price (quantity item) = Inr lt" and
    rec: "process_items db1 rest
            (out @ [\<lparr>out_product_id = product_id item, out_title = title, out_price = price,
                     out_quantity = quantity item, out_image = img,
                     out_line_total = py_round2 lt\<rparr>], fadd s lt) = (Inr (out', s'), db')"
    by (auto split: prod.splits sum.splits)
  let ?io = "\<lparr>out_product_id = product_id item, out_title = title, out_price = price,
              out_quantity = quantity item, out_image = img, out_line_total = py_round2 lt\<rparr>"
  have lt: "lt = raw_line ?io"
    using fmul_int_Inr [OF m] by (simp add: raw_line_def)
  from Cons.IH [OF rec] obtain new where
    n: "out' = (out @ [?io]) @ new" "s' = foldl fadd (fadd s lt) (map raw_line new)"
       "list_all (\<lambda>io. out_line_total io = py_round2 (raw_line io)) new"
       "map out_product_id new = map product_id rest"
       "map out_quantity new = map quantity rest"
    by blast
  show ?case
  proof (intro exI conjI)
    show "out' = out @ (?io # new)" using n(1) by simp
    show "s' = foldl fadd s (map raw_line (?io # new))" using n(2) lt by simp
    show "list_all (\<lambda>io. out_line_total io = py_round2 (raw_line io)) (?io # new)"
      using n(3) lt by simp
    show "map out_product_id (?io # new) = map product_id (item # rest)" using n(4) by simp
    show "map out_quantity (?io # new) = map quantity (item # rest)" using n(5) by simp
  qed
qed

lemma checkout_Inr:
  assumes "fst (checkout db p) = Inr r"
  shows "\<exists>db'. process_items db (items p) ([], Fin 0) =
                 (Inr (resp_items r, raw_subtotal (resp_items r)), db')"
    and "resp_subtotal r = py_round2 (raw_subtotal (resp_items r))"
    and "resp_shipping r = shipping_of (raw_subtotal (resp_items r))"
    and "resp_tax r = py_round2 (fmul (raw_subtotal (resp_items r)) (float_literal (8 / 100)))"
    and "resp_total r =
           py_round2 (fadd (fadd (raw_subtotal (resp_items r))
                                 (shipping_of (raw_subtotal (resp_items r))))
                           (resp_tax r))"
    and "list_all (\<lambda>io. out_line_total io = py_round2 (raw_line io)) (resp_items r)"
    and "map out_product_id (resp_items r) = map product_id (items p)"
    and "map out_quantity (resp_items r) = map quantity (items p)"
    and "items p \<noteq> []"
proof -
  from assms show ne: "items p \<noteq> []"
    by (auto simp: checkout_def split: if_splits)
  obtain res db1 where pi: "process_items db (items p) ([], Fin 0) = (res, db1)"
    by (cases "process_items db (items p) ([], Fin 0)")
  from assms ne pi obtain outs s where res: "res = Inr (outs, s)"
    by (cases res) (auto simp: checkout_def)
  from process_items_acc [OF pi [unfolded res]]
  have s: "s = raw_subtotal outs"
    and lines: "list_all (\<lambda>io. out_line_total io = py_round2 (raw_line io)) outs"
    and ids: "map out_product_id outs = map product_id (items p)"
    and qs: "map out_quantity outs = map quantity (items p)"
    by (auto simp: raw_subtotal_def)
  from assms ne pi res
  have r: "r = \<lparr>resp_items = outs,
             resp_subtotal = py_round2 s,
             resp_shipping = py_round2 (shipping_of s),
             resp_tax = py_round2 (fmul s (float_literal (8 / 100))),
             resp_total = py_round2 (fadd (fadd s (shipping_of s))
                                    (py_round2 (fmul s (float_literal (8 / 100))))),
             resp_status = ''processing'', resp_message = ''Order placed successfully''\<rparr>"
    by (auto simp: checkout_def Let_def shipping_of_def split: option.splits prod.splits sum.splits)
  have items: "resp_items r = outs" by (subst r) simp
  show "\<exists>db'. process_items db (items p) ([], Fin 0) =
                 (Inr (resp_items r, raw_subtotal (resp_items r)), db')"
    using pi res s items by simp
  show "resp_subtotal r = py_round2 (raw_subtotal (resp_items r))"
    unfolding items by (subst r) (simp add: s)
  show "resp_shipping r = shipping_of (raw_subtotal (resp_items r))"
    unfolding items by (subst r) (simp add: s py_round2_shipping)
  show tax: "resp_tax r = py_round2 (fmul (raw_subtotal (resp_items r)) (float_literal (8 / 100)))"
    unfolding items by (subst r) (simp add: s)
  show "resp_total r =
           py_round2 (fadd (fadd (raw_subtotal (resp_items r))
                                 (shipping_of (raw_subtotal (resp_items r))))
                           (resp_tax r))"
    unfolding tax unfolding items by (subst r) (simp add: s)
  show "list_all (\<lambda>io. out_line_total io = py_round2 (raw_line io)) (resp_items r)"
    unfolding items by (rule lines)
  show "map out_product_id (resp_items r) = map product_id (items p)"
    unfolding items by (rule ids)
  show "map out_quantity (resp_items r) = map quantity (items p)"
    unfolding items by (rule qs)
qed

lemma checkout_five_eighths:
  "fst (checkout (Some (sample_db (Fin (5 / 8)))) (sample_request [line 1])) =
     Inr response_five_eighths"
  by code_simp

section \<open>The total\<close>

text \<open>
  C1 (as amended). Whenever checkout returns a response, its total is
  \<^verbatim>\<open>round(subtotal + shipping + tax, 2)\<close> where \<^verbatim>\<open>subtotal\<close> is the accumulated,
  unrounded subtotal (line 198), \<^verbatim>\<open>shipping\<close> and \<^verbatim>\<open>tax\<close> the values of the response.
\<close>

theorem checkout_total_from_raw_subtotal:
  "fst (checkout db p) = Inr r \<Longrightarrow>
   resp_total r =
     py_round2 (fadd (fadd (raw_subtotal (resp_items r)) (resp_shipping r)) (resp_tax r))"
  using checkout_Inr(3,5) [of db p r] by simp

theorem checkout_total_from_raw_subtotal_witness:
  "fst (checkout (Some (sample_db (Fin (5 / 8)))) (sample_request [line 1])) =
     Inr response_five_eighths \<and>
   resp_total response_five_eighths =
     py_round2 (fadd (fadd (raw_subtotal (resp_items response_five_eighths))
                           (resp_shipping response_five_eighths))
                     (resp_tax response_five_eighths))"
  using checkout_five_eighths checkout_total_from_raw_subtotal [OF checkout_five_eighths]
  by (rule conjI)

text \<open>
  C1 as stated fails. One unit of a product priced 0.625: the response has subtotal 0.62,
  shipping 6.99, tax 0.05 and total 7.67, while rounding the sum of the rounded subtotal,
  the shipping and the tax gives 7.66.
\<close>

theorem total_from_rounded_subtotal_counterexample:
  "fst (checkout (Some (sample_db (Fin (5 / 8)))) (sample_request [line 1])) =
     Inr response_five_eighths \<and>
   resp_total response_five_eighths = float_literal (767 / 100) \<and>
   py_round2 (fadd (fadd (resp_subtotal response_five_eighths)
                         (resp_shipping response_five_eighths))
                   (resp_tax response_five_eighths)) = float_literal (766 / 100) \<and>
   float_literal (767 / 100) \<noteq> float_literal (766 / 100)"
proof -
  have "py_round2 (fadd (fadd (float_literal (62 / 100)) (float_literal (699 / 100)))
                        (float_literal (5 / 100))) = float_literal (766 / 100)"
    by code_simp
  moreover have "float_literal (767 / 100) \<noteq> float_literal (766 / 100)"
    by code_simp
  ultimately show ?thesis
    using checkout_five_eighths by (simp add: response_five_eighths_def)
qed

section \<open>Line totals and the subtotal\<close>

lemma checkout_two_eighths:
  "fst (checkout (Some (sample_db (Fin (1 / 8)))) (sample_request [line 1, line 1])) =
     Inr response_two_eighths"
  by code_simp

lemma checkout_eighty_nine:
  "fst (checkout (Some (sample_db (Fin 89))) (sample_request [line 1])) =
     Inr response_eighty_nine"
  by code_simp

text \<open>
  C2 (as amended). Whenever checkout returns a response, the \<^verbatim>\<open>line_total\<close> of every
  emitted line is its \<^verbatim>\<open>price * quantity\<close> rounded to two decimals, the quantities are
  those of the cart, the variable \<^verbatim>\<open>subtotal\<close> after the loop is the float sum of the
  unrounded products \<^verbatim>\<open>price * quantity\<close>, and the subtotal of the response is that sum
  rounded to two decimals.
\<close>

theorem checkout_lines_and_subtotal:
  "fst (checkout db p) = Inr r \<Longrightarrow>
   list_all (\<lambda>io. out_line_total io = py_round2 (raw_line io)) (resp_items r) \<and>
   map out_quantity (resp_items r) = map quantity (items p) \<and>
   fst (process_items db (items p) ([], Fin 0)) =
     Inr (resp_items r, raw_subtotal (resp_items r)) \<and>
   resp_subtotal r = py_round2 (raw_subtotal (resp_items r))"
  using checkout_Inr(1,2,6,8) [of db p r] by auto

theorem checkout_lines_and_subtotal_witness:
  "fst (checkout (Some (sample_db (Fin (1 / 8)))) (sample_request [line 1, line 1])) =
     Inr response_two_eighths \<and>
   (list_all (\<lambda>io. out_line_total io = py_round2 (raw_line io)) (resp_items response_two_eighths) \<and>
    map out_quantity (resp_items response_two_eighths) =
      map quantity (items (sample_request [line 1, line 1])) \<and>
    fst (process_items (Some (sample_db (Fin (1 / 8)))) (items (sample_request [line 1, line 1]))
           ([], Fin 0)) =
      Inr (resp_items response_two_eighths, raw_subtotal (resp_items response_two_eighths)) \<and>
    resp_subtotal response_two_eighths = py_round2 (raw_subtotal (resp_items response_two_eighths)))"
  using checkout_two_eighths checkout_lines_and_subtotal [OF checkout_two_eighths]
  by (rule conjI)

text \<open>
  C2 as stated fails. Two lines of one unit of a product priced 0.125: each line total is
  0.12, and the subtotal of the response is 0.25, not the rounded sum 0.24 of the rounded
  line totals.
\<close>

theorem subtotal_of_rounded_lines_counterexample:
  "fst (checkout (Some (sample_db (Fin (1 / 8)))) (sample_request [line 1, line 1])) =
     Inr response_two_eighths \<and>
   map out_line_total (resp_items response_two_eighths) =
     [float_literal (12 / 100), float_literal (12 / 100)] \<and>
   resp_subtotal response_two_eighths = float_literal (25 / 100) \<and>
   py_round2 (foldl fadd (Fin 0) (map out_line_total (resp_items response_two_eighths))) =
     float_literal (24 / 100) \<and>
   float_literal (25 / 100) \<noteq> float_literal (24 / 100)"
proof -
  have "py_round2 (foldl fadd (Fin 0) [float_literal (12 / 100), float_literal (12 / 100)]) =
          float_literal (24 / 100)"
    by code_simp
  moreover have "float_literal (25 / 100) \<noteq> float_literal (24 / 100)"
    by code_simp
  moreover have "Fin (1 / 4) = float_literal (25 / 100)"
    by code_simp
  ultimately show ?thesis
    using checkout_two_eighths by (simp add: response_two_eighths_def)
qed

section \<open>Shipping and tax\<close>

lemma subtotal_five_eighths_below: "\<not> fge (raw_subtotal (resp_items response_five_eighths)) 75"
  by code_simp

lemma subtotal_eighty_nine_above: "fge (raw_subtotal (resp_items response_eighty_nine)) 75"
  by code_simp

text \<open>
  C6. Whenever checkout returns a response, its shipping is 0 exactly when the accumulated
  subtotal is at least 75, and is the float 6.99 otherwise.
\<close>

theorem checkout_shipping_threshold:
  "fst (checkout db p) = Inr r \<Longrightarrow>
   (resp_shipping r = Fin 0 \<longleftrightarrow> fge (raw_subtotal (resp_items r)) 75) \<and>
   (\<not> fge (raw_subtotal (resp_items r)) 75 \<longrightarrow> resp_shipping r = float_literal (699 / 100))"
  using checkout_Inr(3) [of db p r] literal_699_nonzero by (simp add: shipping_of_def)

theorem checkout_shipping_threshold_witness:
  "(fst (checkout (Some (sample_db (Fin (5 / 8)))) (sample_request [line 1])) =
      Inr response_five_eighths \<and>
    \<not> fge (raw_subtotal (resp_items response_five_eighths)) 75 \<and>
    resp_shipping response_five_eighths = float_literal (699 / 100) \<and>
    resp_shipping response_five_eighths \<noteq> Fin 0) \<and>
   (fst (checkout (Some (sample_db (Fin 89))) (sample_request [line 1])) =
      Inr response_eighty_nine \<and>
    fge (raw_subtotal (resp_items response_eighty_nine)) 75 \<and>
    resp_shipping response_eighty_nine = Fin 0)"
  using checkout_five_eighths checkout_eighty_nine
    checkout_shipping_threshold [OF checkout_five_eighths]
    checkout_shipping_threshold [OF checkout_eighty_nine]
    subtotal_five_eighths_below subtotal_eighty_nine_above
  by blast

text \<open>
  C7. Whenever checkout returns a response, its tax is \<^verbatim>\<open>round(0.08 * subtotal, 2)\<close> for
  the accumulated, unrounded subtotal.
\<close>

theorem checkout_tax_from_raw_subtotal:
  "fst (checkout db p) = Inr r \<Longrightarrow>
   resp_tax r = py_round2 (fmul (float_literal (8 / 100)) (raw_subtotal (resp_items r)))"
  using checkout_Inr(4) [of db p r] by (simp add: fmul_commute)

theorem checkout_tax_from_raw_subtotal_witness:
  "fst (checkout (Some (sample_db (Fin 89))) (sample_request [line 1])) =
     Inr response_eighty_nine \<and>
   resp_tax response_eighty_nine =
     py_round2 (fmul (float_literal (8 / 100)) (raw_subtotal (resp_items response_eighty_nine)))"
  using checkout_eighty_nine checkout_tax_from_raw_subtotal [OF checkout_eighty_nine]
  by (rule conjI)

section \<open>What checkout does to the store\<close>

lemma find_one_frame:
  "find_one name oid d = (res, d') \<Longrightarrow> colls d' = colls d \<and> reachable d' = reachable d"
  by (auto simp: find_one_def Let_def split: if_splits)

lemma try_body_frame:
  "try_body d it = (res, d') \<Longrightarrow> colls d' = colls d \<and> reachable d' = reachable d"
  by (auto simp: try_body_def split: sum.splits prod.splits option.splits dest: find_one_frame)

lemma resolve_Some_frame:
  "resolve (Some d) it = (res, db') \<Longrightarrow>
   \<exists>d'. db' = Some d' \<and> colls d' = colls d \<and> reachable d' = reachable d"
  by (auto simp: resolve_def split: sum.splits prod.splits dest: try_body_frame)

lemma process_items_frame:
  "process_items (Some d) its acc = (res, db') \<Longrightarrow>
   \<exists>d'. db' = Some d' \<and> colls d' = colls d \<and> reachable d' = reachable d"
proof (induction its arbitrary: d acc)
  case Nil
  then show ?case by auto
next
  case (Cons item rest)
  obtain out s where acc: "acc = (out, s)" by (cases acc)
  obtain r1 db1 where r: "resolve (Some d) item = (r1, db1)" by (cases "resolve (Some d) item")
  from resolve_Some_frame [OF r] obtain d1 where
    d1: "db1 = Some d1" "colls d1 = colls d" "reachable d1 = reachable d" by blast
  show ?case
  proof (cases r1)
    case (Inl e)
    with Cons.prems acc r d1 show ?thesis by auto
  next
    case (Inr snap)
    obtain price title img where snap: "snap = (price, title, img)" by (cases snap)
    show ?thesis
    proof (cases "fmul_int price (quantity item)")
      case (Inl e)
      with Cons.prems acc r d1 Inr snap show ?thesis by auto
    next
      case lt: (Inr lt)
      with Cons.prems acc r d1 Inr snap
      have "\<exists>acc'. process_items (Some d1) rest acc' = (res, db')" by auto
      then obtain acc' where "process_items (Some d1) rest acc' = (res, db')" ..
      from Cons.IH [OF this] d1 show ?thesis by auto
    qed
  qed
qed

lemma process_items_None: "snd (process_items None its acc) = None"
proof (induction its arbitrary: acc)
  case Nil
  then show ?case by simp
next
  case (Cons item rest)
  obtain out s where acc: "acc = (out, s)" by (cases acc)
  show ?case
    using Cons.IH by (simp add: acc resolve_def split: sum.splits)
qed

lemma create_document_frame:
  "create_document name doc d = (res, d') \<Longrightarrow> other \<noteq> name \<Longrightarrow> colls d' other = colls d other"
  by (auto simp: create_document_def Let_def split: if_splits)

text \<open>
  C9. Checkout leaves the product collection as it found it, whatever the request and
  whether it succeeds or fails: no product document is added, removed or changed (so no
  \<open>doc_stock_qty\<close> is decremented); its only write is the insertion into the order
  collection.
\<close>

theorem checkout_leaves_products:
  "map_option (\<lambda>d. colls d ''product'') (snd (checkout db p)) =
   map_option (\<lambda>d. colls d ''product'') db"
proof (cases db)
  case None
  then show ?thesis
    using process_items_None [of "items p" "([], Fin 0)"]
    by (auto simp: checkout_def Let_def split: prod.splits sum.splits option.splits)
next
  case (Some d)
  show ?thesis
  proof (cases "items p = []")
    case True
    then show ?thesis by (simp add: checkout_def)
  next
    case False
    obtain res db1 where pi: "process_items (Some d) (items p) ([], Fin 0) = (res, db1)"
      by (cases "process_items (Some d) (items p) ([], Fin 0)")
    from process_items_frame [OF pi] obtain d1 where
      d1: "db1 = Some d1" "colls d1 = colls d" by blast
    show ?thesis
    proof (cases res)
      case (Inl e)
      with Some False pi d1 show ?thesis by (simp add: checkout_def)
    next
      case (Inr acc)
      obtain outs s where acc: "acc = (outs, s)" by (cases acc)
      have "\<And>doc r d2. create_document ''order'' doc d1 = (r, d2) \<Longrightarrow>
              colls d2 ''product'' = colls d ''product''"
        using create_document_frame [of "''order''" _ d1 _ _ "''product''"] d1 by simp
      with Some False pi d1 Inr acc show ?thesis
        by (auto simp: checkout_def Let_def split: prod.splits sum.splits)
    qed
  qed
qed

theorem checkout_leaves_products_witness:
  "map_option (\<lambda>d. colls d ''product'')
     (snd (checkout (Some (sample_db (Fin 89))) (sample_request [line 1]))) =
   Some [(1, ProductDoc (sample_product (Fin 89)))]"
  using checkout_leaves_products [of "Some (sample_db (Fin 89))" "sample_request [line 1]"]
  by (simp add: sample_db_def)

text \<open>
  C5. Checkout of an empty cart raises the client error 400 \<^verbatim>\<open>Cart is empty\<close> and leaves
  the store exactly as it was, the record of calls included: no product was looked up and
  nothing was inserted.
\<close>

theorem checkout_empty_cart:
  "items p = [] \<Longrightarrow> checkout db p = (Inl (HTTPException 400 ''Cart is empty''), db)"
  by (simp add: checkout_def)

theorem checkout_empty_cart_witness:
  "items (sample_request []) = [] \<and>
   checkout (Some (sample_db (Fin 89))) (sample_request []) =
     (Inl (HTTPException 400 ''Cart is empty''), Some (sample_db (Fin 89)))"
proof -
  have e: "items (sample_request []) = []" by (simp add: sample_request_def)
  from e checkout_empty_cart [OF e] show ?thesis by (rule conjI)
qed

section \<open>Failures of product resolution\<close>

lemma try_body_cong:
  "colls d' = colls d \<Longrightarrow> reachable d' = reachable d \<Longrightarrow>
   fst (try_body d' it) = fst (try_body d it)"
  by (auto simp: try_body_def find_one_def Let_def split: sum.splits option.splits)

lemma try_body_malformed:
  "malformed (product_id it) \<Longrightarrow> fst (try_body d it) = Inl InvalidId"
  by (auto simp: malformed_def try_body_def ObjectId_def split: sum.splits option.splits if_splits)

lemma try_body_unreachable:
  "\<not> malformed (product_id it) \<Longrightarrow> \<not> reachable d \<Longrightarrow> fst (try_body d it) = Inl PyMongoError"
  by (auto simp: malformed_def try_body_def find_one_def Let_def split: sum.splits)

lemma try_body_nonexistent:
  "reachable d \<Longrightarrow> nonexistent d (product_id it) \<Longrightarrow>
   fst (try_body d it) =
     Inl (HTTPException 404 (''Product '' @ product_id it @ '' not found''))"
  by (auto simp: nonexistent_def try_body_def find_one_def Let_def split: sum.splits)

lemma resolve_failure:
  "isl (fst (try_body d it)) \<Longrightarrow>
   fst (resolve (Some d) it) = Inl (HTTPException 400 ''Invalid product id'')"
  by (cases "try_body d it") (auto simp: resolve_def split: sum.splits)

lemma process_items_append:
  "process_items db (xs @ ys) acc =
     (case process_items db xs acc of
        (Inl e, db') \<Rightarrow> (Inl e, db')
      | (Inr acc', db') \<Rightarrow> process_items db' ys acc')"
proof (induction xs arbitrary: db acc)
  case Nil
  then show ?case by simp
next
  case (Cons x xs)
  obtain out s where acc: "acc = (out, s)" by (cases acc)
  show ?case
    by (simp add: acc Cons.IH split: prod.splits sum.splits)
qed

text \<open>
  C10. With a configured store, let the lines before some line of the cart be processed
  without error. If the resolution of that line fails (its identifier is malformed, or the
  store lookup raises, or no product has that identifier, or the \<^verbatim>\<open>try\<close> block raises
  anything else), checkout raises the client error 400 \<^verbatim>\<open>Invalid product id\<close>, the same
  in every case. In particular the 404 \<^verbatim>\<open>Product ... not found\<close> raised inside the
  \<^verbatim>\<open>try\<close> block for a missing product is caught by \<^verbatim>\<open>except Exception\<close> and replaced.
\<close>

theorem resolution_failures_are_one_error:
  assumes cart: "items p = pre @ it # post"
    and pre: "fst (process_items (Some d) pre ([], Fin 0)) = Inr acc"
    and cause: "malformed (product_id it) \<or> \<not> reachable d \<or> nonexistent d (product_id it)
                \<or> isl (fst (try_body d it))"
  shows "fst (checkout (Some d) p) = Inl (HTTPException 400 ''Invalid product id'') \<and>
         (reachable d \<and> nonexistent d (product_id it) \<longrightarrow>
            fst (try_body d it) =
              Inl (HTTPException 404 (''Product '' @ product_id it @ '' not found'')))"
proof -
  have fails: "isl (fst (try_body d it))"
  proof (cases "malformed (product_id it)")
    case True
    then show ?thesis by (simp add: try_body_malformed)
  next
    case nm: False
    show ?thesis
    proof (cases "reachable d")
      case False
      with nm show ?thesis by (simp add: try_body_unreachable)
    next
      case True
      with nm cause show ?thesis by (auto simp: try_body_nonexistent)
    qed
  qed
  obtain db1 where p1: "process_items (Some d) pre ([], Fin 0) = (Inr acc, db1)"
    using pre by (cases "process_items (Some d) pre ([], Fin 0)") simp
  from process_items_frame [OF p1] obtain d1 where
    d1: "db1 = Some d1" "colls d1 = colls d" "reachable d1 = reachable d" by blast
  have "isl (fst (try_body d1 it))"
    using fails try_body_cong [OF d1(2,3)] by simp
  then have r: "fst (resolve (Some d1) it) = Inl (HTTPException 400 ''Invalid product id'')"
    by (rule resolve_failure)
  obtain out s where acc: "acc = (out, s)" by (cases acc)
  have "fst (process_items (Some d1) (it # post) acc) =
          Inl (HTTPException 400 ''Invalid product id'')"
    using r by (cases "resolve (Some d1) it") (simp add: acc)
  then have "fst (process_items (Some d) (items p) ([], Fin 0)) =
          Inl (HTTPException 400 ''Invalid product id'')"
    by (simp add: cart process_items_append p1 d1)
  then have "fst (checkout (Some d) p) = Inl (HTTPException 400 ''Invalid product id'')"
    by (cases "process_items (Some d) (items p) ([], Fin 0)") (simp add: checkout_def cart)
  then show ?thesis
    by (simp add: try_body_nonexistent)
qed

lemma sample_causes:
  "malformed ''zz''"
  "\<not> malformed sample_id"
  "\<not> reachable unreachable_db"
  "reachable (sample_db (Fin 89))"
  "nonexistent (sample_db (Fin 89)) missing_id"
  by code_simp+

lemma process_one_line:
  "fst (process_items (Some (sample_db (Fin 89))) [line 1] ([], Fin 0)) =
     Inr (resp_items response_eighty_nine, Fin 89)"
  by code_simp

theorem resolution_failures_are_one_error_witness:
  "fst (checkout (Some (sample_db (Fin 89)))
         (sample_request [line 1, \<lparr>product_id = ''zz'', quantity = 1\<rparr>])) =
     Inl (HTTPException 400 ''Invalid product id'') \<and>
   fst (checkout (Some unreachable_db) (sample_request [line 1])) =
     Inl (HTTPException 400 ''Invalid product id'') \<and>
   fst (checkout (Some (sample_db (Fin 89)))
         (sample_request [\<lparr>product_id = missing_id, quantity = 1\<rparr>])) =
     Inl (HTTPException 400 ''Invalid product id'') \<and>
   fst (try_body (sample_db (Fin 89)) \<lparr>product_id = missing_id, quantity = 1\<rparr>) =
     Inl (HTTPException 404 (''Product '' @ missing_id @ '' not found''))"
proof -
  have a: "fst (checkout (Some (sample_db (Fin 89)))
         (sample_request [line 1, \<lparr>product_id = ''zz'', quantity = 1\<rparr>])) =
     Inl (HTTPException 400 ''Invalid product id'')"
    using resolution_failures_are_one_error
      [of "sample_request [line 1, \<lparr>product_id = ''zz'', quantity = 1\<rparr>]" "[line 1]"
          "\<lparr>product_id = ''zz'', quantity = 1\<rparr>" "[]" "sample_db (Fin 89)"
          "(resp_items response_eighty_nine, Fin 89)"]
      process_one_line sample_causes(1)
    by (simp add: sample_request_def)
  have b: "fst (checkout (Some unreachable_db) (sample_request [line 1])) =
     Inl (HTTPException 400 ''Invalid product id'')"
    using resolution_failures_are_one_error
      [of "sample_request [line 1]" "[]" "line 1" "[]" unreachable_db "([], Fin 0)"]
      sample_causes(3)
    by (simp add: sample_request_def)
  have c: "fst (checkout (Some (sample_db (Fin 89)))
         (sample_request [\<lparr>product_id = missing_id, quantity = 1\<rparr>])) =
     Inl (HTTPException 400 ''Invalid product id'') \<and>
   fst (try_body (sample_db (Fin 89)) \<lparr>product_id = missing_id, quantity = 1\<rparr>) =
     Inl (HTTPException 404 (''Product '' @ missing_id @ '' not found''))"
    using resolution_failures_are_one_error
      [of "sample_request [\<lparr>product_id = missing_id, quantity = 1\<rparr>]" "[]"
          "\<lparr>product_id = missing_id, quantity = 1\<rparr>" "[]" "sample_db (Fin 89)" "([], Fin 0)"]
      sample_causes(4,5)
    by (simp add: sample_request_def)
  from a b c show ?thesis by blast
qed

text \<open>
  C4. A well-formed identifier under which the store holds no product: the code raises
  400 \<^verbatim>\<open>Invalid product id\<close>, which does not name the identifier, where line 178 means
  to raise 404 \<^verbatim>\<open>Product 000000000000000000000002 not found\<close>. No order is persisted.
\<close>

theorem missing_product_reported_as_invalid_id:
  "ObjectId missing_id = Inr 2 \<and>
   map_of (colls (sample_db (Fin 89)) ''product'') 2 = None \<and>
   fst (checkout (Some (sample_db (Fin 89)))
         (sample_request [\<lparr>product_id = missing_id, quantity = 1\<rparr>])) =
     Inl (HTTPException 400 ''Invalid product id'') \<and>
   HTTPException 400 ''Invalid product id'' \<noteq>
     HTTPException 404 (''Product '' @ missing_id @ '' not found'') \<and>
   persisted_orders (snd (checkout (Some (sample_db (Fin 89)))
         (sample_request [\<lparr>product_id = missing_id, quantity = 1\<rparr>]))) = []"
  by code_simp

section \<open>Quantities\<close>

text \<open>
  C3. \<^verbatim>\<open>CartItem.quantity\<close> is a plain \<^verbatim>\<open>int\<close>, so a cart line of quantity 0 or -1 is
  not rejected: checkout prices it, and with a store it persists an order whose item has
  quantity -1 and whose subtotal and total are negative, which the \<^verbatim>\<open>Order\<close> and
  \<^verbatim>\<open>OrderItem\<close> schemas of \<^verbatim>\<open>schemas.py\<close> (\<^verbatim>\<open>ge=1\<close>, \<^verbatim>\<open>ge=0\<close>) exclude.
\<close>

theorem nonpositive_quantity_accepted:
  "fst (checkout None (sample_request [line 0])) =
     Inr \<lparr>resp_items =
            [\<lparr>out_product_id = sample_id, out_title = ''Gift Item'', out_price = Fin 49,
              out_quantity = 0,
              out_image = Some ''https://images.unsplash.com/photo-1523275335684-37898b6baf30'',
              out_line_total = Fin 0\<rparr>],
          resp_subtotal = Fin 0, resp_shipping = float_literal (699 / 100),
          resp_tax = Fin 0, resp_total = float_literal (699 / 100),
          resp_status = ''processing'', resp_message = ''Order placed successfully''\<rparr> \<and>
   resp_subtotal (projr (fst (checkout (Some (sample_db (Fin 89))) (sample_request [line (- 1)])))) =
     Fin (- 89) \<and>
   map (\<lambda>od. (map out_quantity (ord_items od), ord_subtotal od, ord_total od))
       (persisted_orders (snd (checkout (Some (sample_db (Fin 89))) (sample_request [line (- 1)])))) =
     [([- 1], Fin (- 89), float_literal (- 8913 / 100))]"
  by code_simp

section \<open>Checkout without a store\<close>

lemma ilog2_of_int:
  assumes "0 < n"
  shows "ilog2 (of_int n) = bitlen n - 1"
proof -
  have b1: "bitlen 1 = 1" by (simp add: bitlen_alt_def)
  have pos: "1 \<le> bitlen n" using assms by (simp add: bitlen_alt_def)
  have "2 ^ nat (bitlen n - 1) \<le> n" using bitlen_bounds [OF assms] by simp
  then have "(of_int (2 ^ nat (bitlen n - 1)) :: rat) \<le> of_int n"
    by (simp only: of_int_le_iff)
  then have le: "pow2 (bitlen n - 1) \<le> of_int n"
    using pos by (simp add: pow2_def)
  have abs: "\<bar>of_int n :: rat\<bar> = of_int n" using assms by simp
  show ?thesis
    unfolding ilog2_def abs using le by (simp add: b1)
qed

lemma fl_of_int_overflow:
  assumes "2 ^ 1024 \<le> n"
  shows "fl (of_int n) = PInf"
proof -
  have "(0::int) < 2 ^ 1024" by (rule zero_less_power) simp
  from this assms have n: "0 < n" by (rule less_le_trans)
  have "n < 2 ^ nat (bitlen n)" using bitlen_bounds [OF n] by simp
  from assms this have "(2::int) ^ 1024 < 2 ^ nat (bitlen n)" by (rule le_less_trans)
  then have "1024 < nat (bitlen n)" by (rule power_less_imp_less_exp [rotated]) simp
  then have big: "1023 < bitlen n - 1" by linarith
  have nz: "(of_int n :: rat) \<noteq> 0" and gt: "(0::rat) < of_int n" using n by simp_all
  show ?thesis
    unfolding fl_def ilog2_of_int [OF n] Let_def using big nz gt by (simp add: max_def)
qed

lemma py_float_of_int_overflow: "2 ^ 1024 \<le> n \<Longrightarrow> py_float_of_int n = Inl OverflowError"
  by (simp only: py_float_of_int_def int_to_float_def fl_of_int_overflow pyfloat.case)

lemma py_float_of_int_Inr:
  "\<not> isl (py_float_of_int q) \<Longrightarrow> py_float_of_int q = Inr (int_to_float q)"
  by (auto simp: py_float_of_int_def split: pyfloat.splits)

lemma process_items_fallback:
  "list_all (\<lambda>it. \<not> isl (py_float_of_int (quantity it))) its \<Longrightarrow>
   process_items None its (out, s) =
     (Inr (out @ map fallback_line its,
           foldl fadd s (map (\<lambda>it. fmul (Fin 49) (int_to_float (quantity it))) its)), None)"
proof (induction its arbitrary: out s)
  case Nil
  then show ?case by simp
next
  case (Cons item rest)
  then have q: "py_float_of_int (quantity item) = Inr (int_to_float (quantity item))"
    and rest: "list_all (\<lambda>it. \<not> isl (py_float_of_int (quantity it))) rest"
    by (simp_all add: py_float_of_int_Inr)
  show ?case
    by (simp add: resolve_def fmul_int_def q Cons.IH [OF rest] fallback_line_def)
qed

text \<open>
  C8 (as amended). With no database configured, checkout of a non-empty cart in which
  every quantity converts to a float returns a response and raises nothing; every cart
  line is priced with the mock product (price 49.0, title \<^verbatim>\<open>Gift Item\<close>), and there is
  still no store afterwards: nothing was persisted.
\<close>

theorem checkout_without_store:
  assumes "items p \<noteq> []"
    and "list_all (\<lambda>it. \<not> isl (py_float_of_int (quantity it))) (items p)"
  shows "\<not> isl (fst (checkout None p)) \<and> snd (checkout None p) = None \<and>
         resp_items (projr (fst (checkout None p))) = map fallback_line (items p)"
  using assms(1) process_items_fallback [OF assms(2), of "[]" "Fin 0"]
  by (simp add: checkout_def Let_def)

theorem checkout_without_store_witness:
  "items (sample_request [line 2]) \<noteq> [] \<and>
   list_all (\<lambda>it. \<not> isl (py_float_of_int (quantity it))) (items (sample_request [line 2])) \<and>
   \<not> isl (fst (checkout None (sample_request [line 2]))) \<and>
   snd (checkout None (sample_request [line 2])) = None \<and>
   resp_items (projr (fst (checkout None (sample_request [line 2])))) =
     map fallback_line (items (sample_request [line 2]))"
proof -
  have a: "items (sample_request [line 2]) \<noteq> []"
    by (simp add: sample_request_def)
  have b: "list_all (\<lambda>it. \<not> isl (py_float_of_int (quantity it))) (items (sample_request [line 2]))"
    by code_simp
  from a b checkout_without_store [OF a b] show ?thesis by blast
qed

text \<open>
  C8 as stated fails. With no database configured, a cart line whose quantity is
  \<open>2 ^ 1024\<close> makes \<^verbatim>\<open>price * item.quantity\<close> raise \<^verbatim>\<open>OverflowError\<close> (int too large to
  convert to float), which nothing catches: checkout fails. So it does, with the client
  error of line 162, on an empty cart.
\<close>

theorem checkout_without_store_counterexample:
  "fst (checkout None (sample_request [line (2 ^ 1024)])) = Inl OverflowError \<and>
   fst (checkout None (sample_request [])) = Inl (HTTPException 400 ''Cart is empty'')"
proof -
  have "py_float_of_int (2 ^ 1024) = Inl OverflowError"
    by (rule py_float_of_int_overflow) (rule order_refl)
  then have "fst (checkout None (sample_request [line (2 ^ 1024)])) = Inl OverflowError"
    by (simp add: checkout_def sample_request_def line_def resolve_def fmul_int_def)
  moreover
  have "fst (checkout None (sample_request [])) = Inl (HTTPException 400 ''Cart is empty'')"
    by (simp add: checkout_def sample_request_def)
  ultimately show ?thesis by (rule conjI)
qed

end
